theory Spec2Isabelle
  imports Main
begin

section \<open>Strings\<close>

text \<open>Go strings are byte sequences; they are modelled as \<open>string\<close> (a list of bytes).\<close>

definition HasSuffix :: "string \<Rightarrow> string \<Rightarrow> bool" where
  \<comment> \<open>strings.HasSuffix\<close>
  "HasSuffix s suffix =
     (length suffix \<le> length s \<and> drop (length s - length suffix) s = suffix)"

definition TrimSuffix :: "string \<Rightarrow> string \<Rightarrow> string" where
  \<comment> \<open>strings.TrimSuffix: the suffix is removed once, when it is there\<close>
  "TrimSuffix s suffix =
     (if HasSuffix s suffix then take (length s - length suffix) s else s)"

fun Join :: "string list \<Rightarrow> string \<Rightarrow> string" where
  \<comment> \<open>strings.Join\<close>
  "Join [] sep = []"
| "Join [p] sep = p"
| "Join (p # q # ps) sep = p @ sep @ Join (q # ps) sep"

definition digit_char :: "nat \<Rightarrow> char" where
  "digit_char d = ''0123456789'' ! (d mod 10)"

function show_nat :: "nat \<Rightarrow> string" where
  "show_nat n = (if n < 10 then [digit_char n] else show_nat (n div 10) @ [digit_char (n mod 10)])"
  by pat_completeness auto
termination
  by (relation "measure id") auto

definition show_int :: "int \<Rightarrow> string" where
  \<comment> \<open>the verb \<open>%d\<close> of fmt.Sprintf on an int\<close>
  "show_int i = (if i < 0 then CHR ''-'' # show_nat (nat (- i)) else show_nat (nat i))"

section \<open>Semantic versions\<close>

text \<open>
  The version comparison of main.go calls the package semver (NewConstraint, NewVersion,
  Check), which is not part of the sources at hand. The definitions of this section stand
  for it.
\<close>

datatype pre_id = Numeric nat | Alnum string

record version =
  major :: nat
  minor :: nat
  patch :: nat
  pre :: "pre_id list"
  metadata :: string

definition is_digit :: "char \<Rightarrow> bool" where
  "is_digit c = (c \<in> set ''0123456789'')"

definition is_ident_char :: "char \<Rightarrow> bool" where
  "is_ident_char c =
     (c \<in> set ''0123456789abcdefghijklmnopqrstuvwxyzABCDEFGHIJKLMNOPQRSTUVWXYZ-'')"

fun digits_value :: "nat \<Rightarrow> string \<Rightarrow> nat" where
  "digits_value acc [] = acc"
| "digits_value acc (c # cs) = digits_value (10 * acc + (of_char c - 48)) cs"

fun split_on :: "char \<Rightarrow> string \<Rightarrow> string list" where
  \<comment> \<open>the fields of a string between occurrences of a separator\<close>
  "split_on sep [] = [[]]"
| "split_on sep (c # cs) =
     (if c = sep then [] # split_on sep cs
      else (case split_on sep cs of
              [] \<Rightarrow> [[c]]
            | f # fs \<Rightarrow> (c # f) # fs))"

fun cut :: "char \<Rightarrow> string \<Rightarrow> string \<times> string option" where
  \<comment> \<open>the text before the first separator, and the text after it when there is one\<close>
  "cut sep [] = ([], None)"
| "cut sep (c # cs) =
     (if c = sep then ([], Some cs)
      else (case cut sep cs of (before, rest) \<Rightarrow> (c # before, rest)))"

definition parse_numeric :: "string \<Rightarrow> nat option" where
  \<comment> \<open>Modelled from the spec: a numeric identifier of a semantic version is a non-empty
      run of digits without a leading zero.\<close>
  "parse_numeric s =
     (if s \<noteq> [] \<and> list_all is_digit s \<and> (s = ''0'' \<or> hd s \<noteq> CHR ''0'')
      then Some (digits_value 0 s) else None)"

definition parse_pre_id :: "string \<Rightarrow> pre_id option" where
  \<comment> \<open>Modelled from the spec: a pre-release identifier is numeric (no leading zero) or
      a non-empty run of letters, digits and hyphens.\<close>
  "parse_pre_id s =
     (if s = [] \<or> \<not> list_all is_ident_char s then None
      else if list_all is_digit s then map_option Numeric (parse_numeric s)
      else Some (Alnum s))"

fun sequence_option :: "'a option list \<Rightarrow> 'a list option" where
  "sequence_option [] = Some []"
| "sequence_option (None # xs) = None"
| "sequence_option (Some x # xs) = map_option ((#) x) (sequence_option xs)"

definition valid_metadata :: "string option \<Rightarrow> bool" where
  "valid_metadata meta =
     (case meta of
        None \<Rightarrow> True
      | Some m \<Rightarrow> list_all (\<lambda>f. f \<noteq> [] \<and> list_all is_ident_char f) (split_on CHR ''.'' m))"

datatype semver_error = ErrInvalidSemVer | ErrInvalidConstraint

definition parse_core :: "string \<Rightarrow> (nat \<times> nat \<times> nat) option" where
  "parse_core core =
     (case map parse_numeric (split_on CHR ''.'' core) of
        [Some a, Some b, Some c] \<Rightarrow> Some (a, b, c)
      | _ \<Rightarrow> None)"

definition parse_prerelease :: "string option \<Rightarrow> pre_id list option" where
  "parse_prerelease prerelease =
     (case prerelease of
        None \<Rightarrow> Some []
      | Some p \<Rightarrow> sequence_option (map parse_pre_id (split_on CHR ''.'' p)))"

definition NewVersion :: "string \<Rightarrow> semver_error + version" where
  \<comment> \<open>Modelled from the spec: semver.NewVersion, missing from the sources, reads a
      semantic version: three numeric identifiers separated by dots, then an optional
      pre-release after a hyphen and optional build metadata after a plus sign.\<close>
  "NewVersion s =
     (let (rest, meta) = cut CHR ''+'' s;
          (core, prerelease) = cut CHR ''-'' rest
      in case parse_core core of
           None \<Rightarrow> Inl ErrInvalidSemVer
         | Some (a, b, c) \<Rightarrow>
             (case parse_prerelease prerelease of
                None \<Rightarrow> Inl ErrInvalidSemVer
              | Some ids \<Rightarrow>
                  if valid_metadata meta
                  then Inr \<lparr>major = a, minor = b, patch = c, pre = ids,
                           metadata = (case meta of None \<Rightarrow> [] | Some m \<Rightarrow> m)\<rparr>
                  else Inl ErrInvalidSemVer))"

fun compare_nat :: "nat \<Rightarrow> nat \<Rightarrow> int" where
  "compare_nat a b = (if a < b then - 1 else if a = b then 0 else 1)"

fun compare_string :: "string \<Rightarrow> string \<Rightarrow> int" where
  \<comment> \<open>byte-wise lexical order\<close>
  "compare_string [] [] = 0"
| "compare_string [] (d # ds) = - 1"
| "compare_string (c # cs) [] = 1"
| "compare_string (c # cs) (d # ds) =
     (if (of_char c :: nat) < of_char d then - 1
      else if (of_char d :: nat) < of_char c then 1
      else compare_string cs ds)"

fun compare_pre_id :: "pre_id \<Rightarrow> pre_id \<Rightarrow> int" where
  "compare_pre_id (Numeric a) (Numeric b) = compare_nat a b"
| "compare_pre_id (Numeric a) (Alnum t) = - 1"
| "compare_pre_id (Alnum s) (Numeric b) = 1"
| "compare_pre_id (Alnum s) (Alnum t) = compare_string s t"

fun compare_pre_ids :: "pre_id list \<Rightarrow> pre_id list \<Rightarrow> int" where
  "compare_pre_ids [] [] = 0"
| "compare_pre_ids [] (y # ys) = - 1"
| "compare_pre_ids (x # xs) [] = 1"
| "compare_pre_ids (x # xs) (y # ys) =
     (if compare_pre_id x y \<noteq> 0 then compare_pre_id x y else compare_pre_ids xs ys)"

definition compare_pre :: "pre_id list \<Rightarrow> pre_id list \<Rightarrow> int" where
  \<comment> \<open>a version with a pre-release precedes the same version without one\<close>
  "compare_pre p q =
     (if p = [] \<and> q = [] then 0
      else if p = [] then 1
      else if q = [] then - 1
      else compare_pre_ids p q)"

definition Compare :: "version \<Rightarrow> version \<Rightarrow> int" where
  \<comment> \<open>Modelled from the spec: semantic-version ordering, as - 1, 0 or 1: major, minor
      and patch in turn, then the pre-release; build metadata is ignored.\<close>
  "Compare v w =
     (if compare_nat (major v) (major w) \<noteq> 0 then compare_nat (major v) (major w)
      else if compare_nat (minor v) (minor w) \<noteq> 0 then compare_nat (minor v) (minor w)
      else if compare_nat (patch v) (patch w) \<noteq> 0 then compare_nat (patch v) (patch w)
      else compare_pre (pre v) (pre w))"

datatype comparator = OpEq | OpNe | OpGt | OpLt | OpGe | OpLe

record constraint =
  operator :: comparator
  con :: version

fun strip_prefix :: "string \<Rightarrow> string \<Rightarrow> string option" where
  "strip_prefix [] s = Some s"
| "strip_prefix (p # ps) [] = None"
| "strip_prefix (p # ps) (c # cs) = (if p = c then strip_prefix ps cs else None)"

fun find_operator :: "(string \<times> comparator) list \<Rightarrow> string \<Rightarrow> (comparator \<times> string) option" where
  "find_operator [] s = None"
| "find_operator ((tok, opr) # ops) s =
     (case strip_prefix tok s of
        Some rest \<Rightarrow> Some (opr, rest)
      | None \<Rightarrow> find_operator ops s)"

definition NewConstraint :: "string \<Rightarrow> semver_error + constraint" where
  \<comment> \<open>Modelled from the spec: semver.NewConstraint, missing from the sources, reads a
      comparison operator, optional blanks and a version.\<close>
  "NewConstraint s =
     (case find_operator
             [(''>='', OpGe), (''<='', OpLe), (''!='', OpNe),
              (''>'', OpGt), (''<'', OpLt), (''='', OpEq)] s of
        None \<Rightarrow> Inl ErrInvalidConstraint
      | Some (opr, rest) \<Rightarrow>
          (case NewVersion (dropWhile (\<lambda>c. c = CHR '' '') rest) of
             Inl e \<Rightarrow> Inl ErrInvalidConstraint
           | Inr v \<Rightarrow> Inr \<lparr>operator = opr, con = v\<rparr>))"

definition Check :: "constraint \<Rightarrow> version \<Rightarrow> bool" where
  \<comment> \<open>Modelled from the spec: Constraints.Check, missing from the sources, compares the
      version with the constraint's version under semantic-version ordering.\<close>
  "Check c v =
     (case operator c of
        OpEq \<Rightarrow> Compare v (con c) = 0
      | OpNe \<Rightarrow> Compare v (con c) \<noteq> 0
      | OpGt \<Rightarrow> Compare v (con c) > 0
      | OpLt \<Rightarrow> Compare v (con c) < 0
      | OpGe \<Rightarrow> Compare v (con c) \<ge> 0
      | OpLe \<Rightarrow> Compare v (con c) \<le> 0)"

section \<open>The hand-written client (main.go)\<close>

definition APIBasePath :: string where
  "APIBasePath = ''/api/v1''"

definition ServerErrorMessage :: string where
  "ServerErrorMessage = ''Failed to connect to Zep server. Please check that the server is running, the API URL is correct, and no other process is using the same port''"

definition MinServerVersion :: string where
  "MinServerVersion = ''0.16.0''"

definition MinServerWarningMsg :: string where
  "MinServerWarningMsg =
     ''You are using an incompatible Zep server version. Please upgrade to '' @ MinServerVersion @ '' or later.''"

definition DefaultRequestTimeout :: nat where
  \<comment> \<open>in seconds\<close>
  "DefaultRequestTimeout = 30"

text \<open>
  Error values. The four error types of package zep carry a message; \<open>LibraryError\<close>
  stands for an error value produced outside the repository (net/http, semver).
\<close>

datatype zep_error =
    ZepError string
  | NotFoundError string
  | AuthenticationError string
  | APIError string
  | LibraryError string

fun Error :: "zep_error \<Rightarrow> string" where
  \<comment> \<open>the method Error() of the error interface\<close>
  "Error (ZepError m) = m"
| "Error (NotFoundError m) = m"
| "Error (AuthenticationError m) = m"
| "Error (APIError m) = m"
| "Error (LibraryError m) = m"

fun semver_message :: "semver_error \<Rightarrow> string" where
  "semver_message ErrInvalidSemVer = ''Invalid Semantic Version''"
| "semver_message ErrInvalidConstraint = ''improper constraint''"

record request =
  Method :: string
  URL :: string
  ReqHeader :: "(string \<times> string) list"

text \<open>
  An \<open>io.Reader\<close> read to its end: the bytes (\<open>Inr\<close>), or the error of the read (\<open>Inl\<close>).
\<close>

type_synonym reader = "string + string"

type_synonym http_Header = "string \<rightharpoonup> string list"

record response =
  StatusCode :: int
  Header :: http_Header
  Body :: reader

definition Header_Get :: "http_Header \<Rightarrow> string \<Rightarrow> string" where
  \<comment> \<open>http.Header.Get: the first value stored under the key, or the empty string\<close>
  "Header_Get h key = (case h key of None \<Rightarrow> [] | Some [] \<Rightarrow> [] | Some (v # vs) \<Rightarrow> v)"

definition Header_Add :: "string \<Rightarrow> string \<Rightarrow> request \<Rightarrow> request" where
  \<comment> \<open>req.Header.Add(key, value)\<close>
  "Header_Add key val req = req\<lparr>ReqHeader := ReqHeader req @ [(key, val)]\<rparr>"

text \<open>
  An \<open>http.Client\<close> is its timeout and what \<open>Do\<close> answers to a request: a response, or
  an error when no response was obtained.
\<close>

record http_client =
  Timeout :: nat
  Do :: "request \<Rightarrow> zep_error + response"

text \<open>
  What the program takes from its surroundings: whether \<open>http.NewRequest\<close> accepts a
  method and URL (the error message when it does not), and the answers of the default
  transport, used when no client is supplied.
\<close>

record world =
  NewRequest_error :: "string \<Rightarrow> string \<Rightarrow> string option"
  DefaultTransport :: "request \<Rightarrow> zep_error + response"

definition http_NewRequest :: "world \<Rightarrow> string \<Rightarrow> string \<Rightarrow> zep_error + request" where
  "http_NewRequest w meth url =
     (case NewRequest_error w meth url of
        Some msg \<Rightarrow> Inl (LibraryError msg)
      | None \<Rightarrow> Inr \<lparr>Method = meth, URL = url, ReqHeader = []\<rparr>)"

record DefaultZepClient =
  ServerURL :: string
  Headers :: "(string \<times> string) list"
  Client :: http_client

definition joinPaths :: "string list \<Rightarrow> string" where
  "joinPaths paths = Join paths ''/''"

definition GetFullURL :: "DefaultZepClient \<Rightarrow> string \<Rightarrow> string" where
  "GetFullURL z endpoint = joinPaths [ServerURL z, APIBasePath, endpoint]"

definition isVersionGreaterOrEqual :: "string \<Rightarrow> bool \<times> zep_error option" where
  "isVersionGreaterOrEqual ver =
     (case NewConstraint (''>= '' @ MinServerVersion) of
        Inl err \<Rightarrow> (False, Some (LibraryError (semver_message err)))
      | Inr c \<Rightarrow>
          (case NewVersion ver of
             Inl err \<Rightarrow> (False, Some (LibraryError (semver_message err)))
           | Inr currentVersion \<Rightarrow> (Check c currentVersion, None)))"

text \<open>
  \<open>CheckServer\<close> returns the lines it prints and its error (\<open>None\<close> is nil). The stored
  headers are an association list; the source ranges over a map, whose order Go leaves
  open.
\<close>

definition CheckServer :: "world \<Rightarrow> DefaultZepClient \<Rightarrow> string list \<times> zep_error option" where
  "CheckServer w z =
     (let healthCheck = ''/healthz'';
          healthCheckURL = ServerURL z @ healthCheck
      in case http_NewRequest w ''GET'' healthCheckURL of
           Inl err \<Rightarrow> ([], Some err)
         | Inr req0 \<Rightarrow>
             (let req = fold (\<lambda>(key, val). Header_Add key val) (Headers z) req0
              in case Do (Client z) req of
                   Inl err \<Rightarrow> ([], Some err)
                 | Inr resp \<Rightarrow>
                     (let zepServerVersion = Header_Get (Header resp) ''X-Zep-Version''
                      in case isVersionGreaterOrEqual zepServerVersion of
                           (meetsMinVersion, Some err) \<Rightarrow> ([], Some err)
                         | (meetsMinVersion, None) \<Rightarrow>
                             (let out = (if \<not> meetsMinVersion
                                         then [''Warning: '' @ MinServerWarningMsg] else [])
                              in if StatusCode resp \<noteq> 200
                                 then (out, Some (ZepError ServerErrorMessage))
                                 else (out, None)))))"

text \<open>
  \<open>NewZepClient\<close> returns the printed lines and the pointer it returns (\<open>None\<close> would be
  nil). The argument \<open>client\<close> is a pointer too: \<open>None\<close> is nil.
\<close>

definition NewZepClient ::
  "world \<Rightarrow> string \<Rightarrow> string \<Rightarrow> http_client option \<Rightarrow> string list \<times> DefaultZepClient option" where
  "NewZepClient w serverURL apiKey client =
     (let headers = (if apiKey \<noteq> [] then [(''Authorization'', ''Bearer '' @ apiKey)] else []);
          client' = (case client of
                       None \<Rightarrow> \<lparr>Timeout = DefaultRequestTimeout, Do = DefaultTransport w\<rparr>
                     | Some cl \<Rightarrow> cl);
          serverURL' = TrimSuffix serverURL ''/'';
          c = \<lparr>ServerURL = serverURL', Headers = headers, Client = client'\<rparr>
      in case CheckServer w c of
           (out, Some err) \<Rightarrow> (out @ [Error err], Some c)
         | (out, None) \<Rightarrow> (out, Some c))"

definition HandleRequest ::
  "DefaultZepClient \<Rightarrow> request \<Rightarrow> string \<Rightarrow> response option \<times> zep_error option" where
  "HandleRequest z requestPromise notFoundMessage =
     (case Do (Client z) requestPromise of
        Inl err \<Rightarrow> (None, Some (ZepError (ServerErrorMessage @ '': '' @ Error err)))
      | Inr resp \<Rightarrow>
          if StatusCode resp = 200 then (Some resp, None)
          else if StatusCode resp = 404 then (None, Some (NotFoundError notFoundMessage))
          else if StatusCode resp = 401 then
            (None, Some (AuthenticationError ''Authentication failed.''))
          else (None, Some (APIError (''Got an unexpected status code: ''
                                        @ show_int (StatusCode resp)))))"

text \<open>
  The operations of the interface \<open>ZepClient\<close>, run on a client. Each takes the receiver
  by pointer; none of them assigns to a field, so the receiver comes back as it went in.
\<close>

datatype client_op =
    OpGetFullURL string
  | OpCheckServer
  | OpHandleRequest request string

datatype op_result =
    ResURL string
  | ResCheck "string list" "zep_error option"
  | ResHandle "response option" "zep_error option"

fun exec_op :: "world \<Rightarrow> DefaultZepClient \<Rightarrow> client_op \<Rightarrow> DefaultZepClient \<times> op_result" where
  "exec_op w z (OpGetFullURL endpoint) = (z, ResURL (GetFullURL z endpoint))"
| "exec_op w z OpCheckServer = (case CheckServer w z of (out, err) \<Rightarrow> (z, ResCheck out err))"
| "exec_op w z (OpHandleRequest req msg) =
     (case HandleRequest z req msg of (resp, err) \<Rightarrow> (z, ResHandle resp err))"

fun exec_ops :: "world \<Rightarrow> DefaultZepClient \<Rightarrow> client_op list \<Rightarrow> DefaultZepClient" where
  "exec_ops w z [] = z"
| "exec_ops w z (x # xs) = exec_ops w (fst (exec_op w z x)) xs"

section \<open>The generated search client\<close>

subsection \<open>Headers in a store\<close>

text \<open>
  An \<open>http.Header\<close> is a Go map, a reference: two variables can name the same map, and
  a write through one shows through the other. Headers therefore live in a store, and a
  header variable holds an address. Allocation takes the next free address.
\<close>

type_synonym addr = nat

record heap =
  cells :: "addr \<rightharpoonup> http_Header"
  next_free :: addr

definition alloc :: "heap \<Rightarrow> http_Header \<Rightarrow> heap \<times> addr" where
  "alloc h v = (h\<lparr>cells := (cells h)(next_free h \<mapsto> v), next_free := Suc (next_free h)\<rparr>,
                next_free h)"

definition deref :: "heap \<Rightarrow> addr \<Rightarrow> http_Header" where
  \<comment> \<open>the entries of a header; an address that names no map reads as no entries\<close>
  "deref h a = (case cells h a of None \<Rightarrow> Map.empty | Some v \<Rightarrow> v)"

definition Header_Clone :: "heap \<Rightarrow> addr \<Rightarrow> heap \<times> addr" where
  \<comment> \<open>http.Header.Clone: a new map with the same entries\<close>
  "Header_Clone h a = alloc h (deref h a)"

definition MergeHeaders :: "heap \<Rightarrow> addr \<Rightarrow> addr \<Rightarrow> heap \<times> addr" where
  \<comment> \<open>Modelled from the spec: core.MergeHeaders, missing from the sources, merges the
      entries of its second argument into its first argument, in place, and returns the
      first.\<close>
  "MergeHeaders h left right =
     (h\<lparr>cells := (cells h)(left \<mapsto> deref h left ++ deref h right)\<rparr>, left)"

subsection \<open>Options, errors and the parts taken from outside\<close>

text \<open>
  The \<open>i\<close>-th call of \<open>Do\<close> on an HTTP client answers with a response, or with an error
  message when the transport fails.
\<close>

record 'p call_request =
  cr_URL :: string
  cr_Method :: string
  cr_Header :: http_Header
  cr_Body :: 'p

type_synonym 'p HTTPClient = "nat \<Rightarrow> 'p call_request \<Rightarrow> string + response"

text \<open>The value that \<open>core.NewRequestOptions(opts...)\<close> builds from the options given.\<close>

record 'p RequestOptions =
  BaseURL :: string
  HTTPClient :: "'p HTTPClient option"
  HTTPHeader :: http_Header
  MaxAttempts :: nat

definition ToHeader :: "heap \<Rightarrow> 'p RequestOptions \<Rightarrow> heap \<times> addr" where
  \<comment> \<open>Modelled from the spec: RequestOptions.ToHeader, missing from the sources, gives
      the headers of the options as a header of their own.\<close>
  "ToHeader h options = alloc h (HTTPHeader options)"

record core_APIError =
  APIError_StatusCode :: int
  APIError_err :: string

definition NewAPIError :: "int \<Rightarrow> string \<Rightarrow> core_APIError" where
  \<comment> \<open>core.NewAPIError(statusCode, errors.New(raw))\<close>
  "NewAPIError statusCode raw = \<lparr>APIError_StatusCode = statusCode, APIError_err = raw\<rparr>"

text \<open>
  The typed errors \<open>zepgo.NotFoundError\<close> and \<open>zepgo.InternalServerError\<close>: the embedded
  pointer to the generic error, and what decoding the body filled in.
\<close>

record typed_error =
  te_APIError :: "core_APIError option"
  te_decoded :: "string option"

definition new_typed_error :: typed_error where
  \<comment> \<open>\<open>new(T)\<close>: the zero value\<close>
  "new_typed_error = \<lparr>te_APIError = None, te_decoded = None\<rparr>"

datatype search_error =
    ErrRead string
  | ErrAPI core_APIError
  | ErrNotFound typed_error
  | ErrInternalServer typed_error
  | ErrOther string

text \<open>
  Functions of the standard library and of package core that the client calls and whose
  results the properties below do not depend on: formatting, query encoding and JSON
  decoding (\<open>None\<close> when decoding fails).
\<close>

record ('p, 'r) library =
  Sprintf :: "string \<Rightarrow> string \<Rightarrow> string"
  QueryValues :: "'p \<Rightarrow> string + (string \<times> string list) list"
  Encode :: "(string \<times> string list) list \<Rightarrow> string"
  Decode_NotFoundError :: "string \<Rightarrow> typed_error \<Rightarrow> typed_error option"
  Decode_InternalServerError :: "string \<Rightarrow> typed_error \<Rightarrow> typed_error option"
  Decode_Response :: "string \<Rightarrow> 'r option"
  DefaultClient :: "'p HTTPClient"

definition errorDecoder :: "('p, 'r) library \<Rightarrow> int \<Rightarrow> reader \<Rightarrow> search_error" where
  \<comment> \<open>the closure \<open>errorDecoder\<close> of \<open>Get\<close>\<close>
  "errorDecoder L statusCode body =
     (case body of
        Inl err \<Rightarrow> ErrRead err
      | Inr raw \<Rightarrow>
          (let apiError = NewAPIError statusCode raw
           in if statusCode = 404 then
                (let val = new_typed_error\<lparr>te_APIError := Some apiError\<rparr>
                 in case Decode_NotFoundError L raw val of
                      None \<Rightarrow> ErrAPI apiError
                    | Some val' \<Rightarrow> ErrNotFound val')
              else if statusCode = 500 then
                (let val = new_typed_error\<lparr>te_APIError := Some apiError\<rparr>
                 in case Decode_InternalServerError L raw val of
                      None \<Rightarrow> ErrAPI apiError
                    | Some val' \<Rightarrow> ErrInternalServer val')
              else ErrAPI apiError))"

subsection \<open>The request executor\<close>

record 'p Caller =
  caller_client :: "'p HTTPClient option"
  caller_attempts :: nat

definition NewCaller :: "'p HTTPClient option \<Rightarrow> nat \<Rightarrow> 'p Caller" where
  \<comment> \<open>core.NewCaller(&core.CallerParams{Client: ..., MaxAttempts: ...})\<close>
  "NewCaller cl n = \<lparr>caller_client = cl, caller_attempts = n\<rparr>"

record 'p CallParams =
  cp_URL :: string
  cp_Method :: string
  cp_MaxAttempts :: nat
  cp_Headers :: addr
  cp_Client :: "'p HTTPClient option"
  cp_Request :: 'p
  cp_ErrorDecoder :: "int \<Rightarrow> reader \<Rightarrow> search_error"

definition attempt_count :: "'p Caller \<Rightarrow> 'p CallParams \<Rightarrow> nat" where
  \<comment> \<open>Modelled from the spec: the configured attempt count of a call is the count given
      with the call when there is one, and the Caller's count otherwise.\<close>
  "attempt_count cr params =
     (if cp_MaxAttempts params > 0 then cp_MaxAttempts params else caller_attempts cr)"

function send_retrying :: "(nat \<Rightarrow> string + response) \<Rightarrow> nat \<Rightarrow> nat \<Rightarrow> nat \<times> (string + response)" where
  \<comment> \<open>Modelled from the spec: the request is sent; after a transport failure it is sent
      again while the attempt count allows. The result carries the number of attempts
      made, counted from \<open>i\<close>.\<close>
  "send_retrying send maxAttempts i =
     (case send i of
        Inr resp \<Rightarrow> (Suc i, Inr resp)
      | Inl err \<Rightarrow>
          if Suc i < maxAttempts then send_retrying send maxAttempts (Suc i)
          else (Suc i, Inl err))"
  by pat_completeness auto
termination
  by (relation "measure (\<lambda>(send, maxAttempts, i). maxAttempts - i)") auto

declare send_retrying.simps [simp del]

definition call_client :: "('p, 'r) library \<Rightarrow> 'p Caller \<Rightarrow> 'p CallParams \<Rightarrow> 'p HTTPClient" where
  \<comment> \<open>the HTTP client a call goes through\<close>
  "call_client L cr params =
     (case cp_Client params of
        Some cl \<Rightarrow> cl
      | None \<Rightarrow> (case caller_client cr of Some cl \<Rightarrow> cl | None \<Rightarrow> DefaultClient L))"

definition call_request_of :: "heap \<Rightarrow> 'p CallParams \<Rightarrow> 'p call_request" where
  \<comment> \<open>the request a call sends\<close>
  "call_request_of h params =
     \<lparr>cr_URL = cp_URL params, cr_Method = cp_Method params,
      cr_Header = deref h (cp_Headers params), cr_Body = cp_Request params\<rparr>"

definition Call ::
  "('p, 'r) library \<Rightarrow> 'p Caller \<Rightarrow> heap \<Rightarrow> 'p CallParams \<Rightarrow> nat \<times> (search_error + 'r)" where
  \<comment> \<open>Modelled from the spec: Caller.Call, missing from the sources, sends an HTTP
      request, retries up to a configured attempt count on transient failure, decodes a
      successful JSON body into the expected type, and on error status codes invokes the
      decoder of the call. The first component is the number of attempts made.\<close>
  "Call L cr h params =
     (case send_retrying (\<lambda>i. call_client L cr params i (call_request_of h params))
             (attempt_count cr params) 0 of
        (n, Inl err) \<Rightarrow> (n, Inl (ErrOther err))
      | (n, Inr resp) \<Rightarrow>
          if 200 \<le> StatusCode resp \<and> StatusCode resp < 300 then
            (case Body resp of
               Inl err \<Rightarrow> (n, Inl (ErrRead err))
             | Inr raw \<Rightarrow>
                 (case Decode_Response L raw of
                    None \<Rightarrow> (n, Inl (ErrOther ''decode''))
                  | Some r \<Rightarrow> (n, Inr r)))
          else (n, Inl (cp_ErrorDecoder params (StatusCode resp) (Body resp))))"

subsection \<open>The client\<close>

record 'p search_Client =
  baseURL :: string
  caller :: "'p Caller"
  header :: addr

definition NewClient :: "heap \<Rightarrow> 'p RequestOptions \<Rightarrow> heap \<times> 'p search_Client" where
  "NewClient h options =
     (case ToHeader h options of
        (h', a) \<Rightarrow>
          (h', \<lparr>baseURL = BaseURL options,
                caller = NewCaller (HTTPClient options) (MaxAttempts options),
                header = a\<rparr>))"

text \<open>
  \<open>Get\<close> returns the store it leaves, the number of attempts the executor made, and the
  result or the error. The argument \<open>options\<close> is \<open>core.NewRequestOptions(opts...)\<close>.
\<close>

definition Get ::
  "('p, 'r) library \<Rightarrow> heap \<Rightarrow> 'p search_Client \<Rightarrow> string \<Rightarrow> 'p \<Rightarrow> 'p RequestOptions
     \<Rightarrow> heap \<times> nat \<times> (search_error + 'r)" where
  "Get L h c sessionID request options =
     (let baseURL0 = ''https://api.getzep.com/api/v2'';
          baseURL1 = (if baseURL c \<noteq> [] then baseURL c else baseURL0);
          baseURL2 = (if BaseURL options \<noteq> [] then BaseURL options else baseURL1);
          endpointURL = Sprintf L (baseURL2 @ ''/'' @ ''sessions/%v/search'') sessionID
      in case QueryValues L request of
           Inl err \<Rightarrow> (h, 0, Inl (ErrOther err))
         | Inr queryParams \<Rightarrow>
             (let endpointURL' = (if length queryParams > 0
                                  then endpointURL @ ''?'' @ Encode L queryParams
                                  else endpointURL)
              in case Header_Clone h (header c) of (h1, cloned) \<Rightarrow>
                 case ToHeader h1 options of (h2, given) \<Rightarrow>
                 case MergeHeaders h2 cloned given of (h3, headers) \<Rightarrow>
                   (h3, Call L (caller c) h3
                          \<lparr>cp_URL = endpointURL', cp_Method = ''POST'',
                           cp_MaxAttempts = MaxAttempts options, cp_Headers = headers,
                           cp_Client = HTTPClient options, cp_Request = request,
                           cp_ErrorDecoder = errorDecoder L\<rparr>)))"

section \<open>The properties in the specification's words\<close>

text \<open>
  A valid semantic version, by its grammar: three numeric identifiers separated by dots,
  then optionally a hyphen and dot-separated pre-release identifiers, then optionally a
  plus sign and dot-separated build identifiers. Numeric identifiers have no leading zero.
\<close>

definition valid_numeric_identifier :: "string \<Rightarrow> bool" where
  "valid_numeric_identifier s =
     (s \<noteq> [] \<and> list_all is_digit s \<and> (length s > 1 \<longrightarrow> hd s \<noteq> CHR ''0''))"

definition valid_prerelease_identifier :: "string \<Rightarrow> bool" where
  "valid_prerelease_identifier s =
     (s \<noteq> [] \<and> list_all is_ident_char s \<and>
      (list_all is_digit s \<longrightarrow> valid_numeric_identifier s))"

definition valid_build_identifier :: "string \<Rightarrow> bool" where
  "valid_build_identifier s = (s \<noteq> [] \<and> list_all is_ident_char s)"

definition valid_semver :: "string \<Rightarrow> bool" where
  "valid_semver s =
     (case cut CHR ''+'' s of (rest, build) \<Rightarrow>
        (case cut CHR ''-'' rest of (core, prerelease) \<Rightarrow>
           (case split_on CHR ''.'' core of
              [a, b, c] \<Rightarrow> valid_numeric_identifier a \<and> valid_numeric_identifier b \<and>
                           valid_numeric_identifier c
            | _ \<Rightarrow> False) \<and>
           (case prerelease of
              None \<Rightarrow> True
            | Some p \<Rightarrow> list_all valid_prerelease_identifier (split_on CHR ''.'' p)) \<and>
           (case build of
              None \<Rightarrow> True
            | Some m \<Rightarrow> list_all valid_build_identifier (split_on CHR ''.'' m))))"

definition at_least_minimum :: "string \<Rightarrow> bool" where
  \<comment> \<open>a valid version that is greater than or equal to the minimum supported version
      under semantic-version ordering\<close>
  "at_least_minimum s =
     (case NewVersion s of
        Inl e \<Rightarrow> False
      | Inr v \<Rightarrow> (case NewVersion MinServerVersion of
                    Inl e \<Rightarrow> False
                  | Inr m \<Rightarrow> 0 \<le> Compare v m))"

definition below_minimum :: "string \<Rightarrow> bool" where
  \<comment> \<open>a valid version that precedes the minimum supported version\<close>
  "below_minimum s =
     (case NewVersion s of
        Inl e \<Rightarrow> False
      | Inr v \<Rightarrow> (case NewVersion MinServerVersion of
                    Inl e \<Rightarrow> False
                  | Inr m \<Rightarrow> Compare v m < 0))"

definition get_attempt_count :: "'p search_Client \<Rightarrow> 'p RequestOptions \<Rightarrow> nat" where
  \<comment> \<open>the attempt count configured for a \<open>Get\<close>: the count of the options of the request when
      they set one, and otherwise the count the client's Caller was built with\<close>
  "get_attempt_count c options =
     (if MaxAttempts options > 0 then MaxAttempts options else caller_attempts (caller c))"

section \<open>Concrete inputs\<close>

definition example_response :: "int \<Rightarrow> string \<Rightarrow> response" where
  "example_response code ver =
     \<lparr>StatusCode = code, Header = [''X-Zep-Version'' \<mapsto> [ver]], Body = Inr ''not json''\<rparr>"

definition example_world :: "int \<Rightarrow> string \<Rightarrow> world" where
  "example_world code ver =
     \<lparr>NewRequest_error = (\<lambda>meth url. None),
      DefaultTransport = (\<lambda>req. Inr (example_response code ver))\<rparr>"

definition example_zep_client :: "int \<Rightarrow> string \<Rightarrow> DefaultZepClient" where
  "example_zep_client code ver =
     \<lparr>ServerURL = ''http://h'', Headers = [(''Authorization'', ''Bearer k'')],
      Client = \<lparr>Timeout = 30, Do = (\<lambda>req. Inr (example_response code ver))\<rparr>\<rparr>"

definition example_request :: request where
  "example_request = \<lparr>Method = ''GET'', URL = ''http://h/api/v1/sessions/s1'', ReqHeader = []\<rparr>"

definition example_library :: "(unit, string) library" where
  "example_library =
     \<lparr>Sprintf = (\<lambda>f a. f @ a),
      QueryValues = (\<lambda>p. Inr []),
      Encode = (\<lambda>q. []),
      Decode_NotFoundError =
        (\<lambda>raw v. if raw = ''{}'' then Some (v\<lparr>te_decoded := Some raw\<rparr>) else None),
      Decode_InternalServerError =
        (\<lambda>raw v. if raw = ''{}'' then Some (v\<lparr>te_decoded := Some raw\<rparr>) else None),
      Decode_Response = (\<lambda>raw. Some raw),
      DefaultClient = (\<lambda>i req. Inl ''connection refused'')\<rparr>"

definition flaky_client :: "nat \<Rightarrow> int \<Rightarrow> unit HTTPClient" where
  \<comment> \<open>the transport fails \<open>k\<close> times, then the server answers with the status \<open>code\<close>\<close>
  "flaky_client k code =
     (\<lambda>i req. if i < k then Inl ''timeout'' else Inr (example_response code ''0.17.0''))"

definition empty_heap :: heap where
  "empty_heap = \<lparr>cells = Map.empty, next_free = 0\<rparr>"

definition example_options :: "nat \<Rightarrow> unit HTTPClient option \<Rightarrow> unit RequestOptions" where
  "example_options n cl =
     \<lparr>BaseURL = [], HTTPClient = cl, HTTPHeader = [''Authorization'' \<mapsto> [''Api-Key k'']],
      MaxAttempts = n\<rparr>"

definition example_search_client :: "unit search_Client" where
  "example_search_client =
     \<lparr>baseURL = [], caller = NewCaller (Some (flaky_client 1 500)) 3, header = 0\<rparr>"

definition example_heap :: heap where
  "example_heap = \<lparr>cells = [0 \<mapsto> [''Authorization'' \<mapsto> [''Api-Key k'']]], next_free = 1\<rparr>"

definition example_params :: "unit CallParams" where
  "example_params =
     \<lparr>cp_URL = ''https://api.getzep.com/api/v2/sessions/s1/search'', cp_Method = ''POST'',
      cp_MaxAttempts = 0, cp_Headers = 0, cp_Client = None, cp_Request = (),
      cp_ErrorDecoder = errorDecoder example_library\<rparr>"

definition example_request_options :: "unit RequestOptions" where
  "example_request_options =
     \<lparr>BaseURL = [], HTTPClient = None, HTTPHeader = [''X-Request-Id'' \<mapsto> [''1'']],
      MaxAttempts = 0\<rparr>"

section \<open>Proofs\<close>

subsection \<open>Auxiliary facts\<close>

lemmas semver_eval =
  NewVersion_def parse_core_def parse_prerelease_def valid_metadata_def parse_numeric_def
  parse_pre_id_def is_digit_def is_ident_char_def Compare_def compare_pre_def

lemma NewVersion_min:
  "NewVersion MinServerVersion =
     Inr \<lparr>major = 0, minor = 16, patch = 0, pre = [], metadata = []\<rparr>"
  by (simp add: MinServerVersion_def semver_eval)

lemma NewConstraint_min:
  "NewConstraint (''>= '' @ MinServerVersion) =
     Inr \<lparr>operator = OpGe,
          con = \<lparr>major = 0, minor = 16, patch = 0, pre = [], metadata = []\<rparr>\<rparr>"
  using NewVersion_min by (simp add: NewConstraint_def MinServerVersion_def)

lemma parse_numeric_valid: "(parse_numeric s = None) = (\<not> valid_numeric_identifier s)"
  by (cases s; cases "tl s") (auto simp: parse_numeric_def valid_numeric_identifier_def)

lemma parse_pre_id_valid: "(parse_pre_id s = None) = (\<not> valid_prerelease_identifier s)"
  using parse_numeric_valid [of s]
  by (auto simp: parse_pre_id_def valid_prerelease_identifier_def)

lemma sequence_option_None:
  "(sequence_option (map f xs) = None) = (\<not> list_all (\<lambda>x. f x \<noteq> None) xs)"
proof (induction xs)
  case Nil
  show ?case by simp
next
  case (Cons x xs)
  then show ?case by (cases "f x") auto
qed

lemma parse_core_valid:
  "(parse_core core = None) =
     (\<not> (case split_on CHR ''.'' core of
           [a, b, c] \<Rightarrow> valid_numeric_identifier a \<and> valid_numeric_identifier b \<and>
                        valid_numeric_identifier c
         | _ \<Rightarrow> False))"
  by (auto simp: parse_core_def parse_numeric_valid [symmetric] split: list.splits option.splits)

lemma parse_prerelease_valid:
  "(parse_prerelease p = None) =
     (\<not> (case p of None \<Rightarrow> True
         | Some q \<Rightarrow> list_all valid_prerelease_identifier (split_on CHR ''.'' q)))"
proof (cases p)
  case None
  then show ?thesis by (simp add: parse_prerelease_def)
next
  case (Some q)
  have "(\<lambda>x. parse_pre_id x \<noteq> None) = valid_prerelease_identifier"
    by (simp add: fun_eq_iff parse_pre_id_valid)
  with Some show ?thesis
    by (simp add: parse_prerelease_def sequence_option_None)
qed

lemma NewVersion_valid: "isl (NewVersion s) = (\<not> valid_semver s)"
proof -
  obtain rest build where c1: "cut CHR ''+'' s = (rest, build)" by (cases "cut CHR ''+'' s")
  obtain core prerelease where c2: "cut CHR ''-'' rest = (core, prerelease)"
    by (cases "cut CHR ''-'' rest")
  have b: "valid_metadata build =
      (case build of None \<Rightarrow> True
       | Some m \<Rightarrow> list_all valid_build_identifier (split_on CHR ''.'' m))"
    by (simp add: valid_metadata_def valid_build_identifier_def [abs_def] split: option.splits)
  show ?thesis
  proof (cases "parse_core core")
    case None
    with parse_core_valid [of core] c1 c2 show ?thesis
      by (simp add: NewVersion_def valid_semver_def)
  next
    case core: (Some abc)
    show ?thesis
    proof (cases "parse_prerelease prerelease")
      case None
      with parse_prerelease_valid [of prerelease] core c1 c2 show ?thesis
        by (simp add: NewVersion_def valid_semver_def split: prod.splits)
    next
      case (Some ids)
      with parse_prerelease_valid [of prerelease] parse_core_valid [of core] core c1 c2 b
      show ?thesis
        by (simp add: NewVersion_def valid_semver_def split: prod.splits)
    qed
  qed
qed

lemma isVersionGreaterOrEqual_eq:
  "isVersionGreaterOrEqual ver =
     (case NewVersion ver of
        Inl err \<Rightarrow> (False, Some (LibraryError (semver_message err)))
      | Inr v \<Rightarrow>
          (0 \<le> Compare v \<lparr>major = 0, minor = 16, patch = 0, pre = [], metadata = []\<rparr>, None))"
  unfolding isVersionGreaterOrEqual_def NewConstraint_min
  by (simp add: Check_def split: sum.splits)

lemma below_minimum_result:
  "below_minimum ver \<Longrightarrow> isVersionGreaterOrEqual ver = (False, None)"
  by (auto simp: below_minimum_def isVersionGreaterOrEqual_eq NewVersion_min split: sum.splits)

lemma HasSuffix_slash: "HasSuffix s ''/'' = (s \<noteq> [] \<and> last s = CHR ''/'')"
  by (cases s rule: rev_cases) (auto simp: HasSuffix_def)

lemma TrimSuffix_no_slash:
  assumes "\<not> HasSuffix s ''//''"
  shows "\<not> HasSuffix (TrimSuffix s ''/'') ''/''"
proof (cases s rule: rev_cases)
  case Nil
  then show ?thesis by (simp add: TrimSuffix_def HasSuffix_def)
next
  case (snoc ys y)
  with assms show ?thesis
    by (cases ys rule: rev_cases) (auto simp: TrimSuffix_def HasSuffix_def)
qed

lemma exec_op_receiver: "fst (exec_op w z x) = z"
  by (cases x) (auto split: prod.splits)

lemma exec_ops_receiver: "exec_ops w z ops = z"
  by (induction ops arbitrary: z) (simp_all add: exec_op_receiver)

lemma NewZepClient_snd:
  "snd (NewZepClient w serverURL apiKey client) =
     Some \<lparr>ServerURL = TrimSuffix serverURL ''/'',
           Headers = (if apiKey \<noteq> [] then [(''Authorization'', ''Bearer '' @ apiKey)] else []),
           Client = (case client of
                       None \<Rightarrow> \<lparr>Timeout = DefaultRequestTimeout, Do = DefaultTransport w\<rparr>
                     | Some cl \<Rightarrow> cl)\<rparr>"
  by (simp add: NewZepClient_def Let_def split: prod.splits option.splits)

lemma CheckServer_response:
  assumes "http_NewRequest w ''GET'' (ServerURL z @ ''/healthz'') = Inr req0"
    and "Do (Client z) (fold (\<lambda>(key, val). Header_Add key val) (Headers z) req0) = Inr resp"
  shows "CheckServer w z =
     (case isVersionGreaterOrEqual (Header_Get (Header resp) ''X-Zep-Version'') of
        (b, Some err) \<Rightarrow> ([], Some err)
      | (b, None) \<Rightarrow>
          (if \<not> b then [''Warning: '' @ MinServerWarningMsg] else [],
           if StatusCode resp \<noteq> 200 then Some (ZepError ServerErrorMessage) else None))"
  using assms by (simp add: CheckServer_def Let_def split: prod.splits option.splits)

lemma example_CheckServer:
  "CheckServer (example_world code ver) (example_zep_client code ver) =
     (case isVersionGreaterOrEqual ver of
        (b, Some err) \<Rightarrow> ([], Some err)
      | (b, None) \<Rightarrow>
          (if \<not> b then [''Warning: '' @ MinServerWarningMsg] else [],
           if code \<noteq> 200 then Some (ZepError ServerErrorMessage) else None))"
  by (simp add: CheckServer_def example_world_def example_zep_client_def example_response_def
      http_NewRequest_def Header_Get_def split: prod.splits option.splits)

lemma example_versions:
  "isVersionGreaterOrEqual ''0.17.0'' = (True, None)"
  "isVersionGreaterOrEqual ''0.15.2'' = (False, None)"
  "isVersionGreaterOrEqual ''abc'' = (False, Some (LibraryError ''Invalid Semantic Version''))"
  by (simp_all add: isVersionGreaterOrEqual_eq semver_eval)

lemma send_retrying_attempts:
  "i < fst (send_retrying send m i) \<and> (i < m \<longrightarrow> fst (send_retrying send m i) \<le> m)"
proof (induction send m i rule: send_retrying.induct)
  case (1 send maxAttempts i)
  show ?case
  proof (cases "send i")
    case (Inr resp)
    then show ?thesis by (subst (1 2) send_retrying.simps) auto
  next
    case (Inl err)
    show ?thesis
    proof (cases "Suc i < maxAttempts")
      case True
      with Inl 1 show ?thesis by (subst (1 2) send_retrying.simps) auto
    next
      case False
      with Inl show ?thesis by (subst (1 2) send_retrying.simps) auto
    qed
  qed
qed

lemma send_retrying_failures:
  "i \<le> j \<Longrightarrow> Suc j < fst (send_retrying send m i) \<Longrightarrow> isl (send j)"
proof (induction send m i rule: send_retrying.induct)
  case (1 send maxAttempts i)
  note unfold = send_retrying.simps [of send maxAttempts i]
  show ?case
  proof (cases "send i")
    case (Inr resp)
    with "1.prems" show ?thesis by (simp add: unfold)
  next
    case (Inl err)
    show ?thesis
    proof (cases "i = j")
      case True
      with Inl show ?thesis by simp
    next
      case False
      show ?thesis
      proof (cases "Suc i < maxAttempts")
        case True
        with "1.prems" Inl False have "Suc j < fst (send_retrying send maxAttempts (Suc i))"
          by (simp add: unfold)
        moreover from "1.prems" False have "Suc i \<le> j" by simp
        ultimately show ?thesis using "1.IH" [OF Inl True] by simp
      next
        case False
        with "1.prems" Inl show ?thesis by (simp add: unfold)
      qed
    qed
  qed
qed

lemma Call_fst:
  "fst (Call L cr h params) =
     fst (send_retrying (\<lambda>i. call_client L cr params i (call_request_of h params))
            (attempt_count cr params) 0)"
  by (simp add: Call_def split: prod.splits sum.splits option.splits)

lemma alloc_frame: "a < next_free h \<Longrightarrow> cells (fst (alloc h v)) a = cells h a"
  by (simp add: alloc_def)

lemma alloc_next: "next_free (fst (alloc h v)) = Suc (next_free h)" "snd (alloc h v) = next_free h"
  by (simp_all add: alloc_def)

lemma Get_heap:
  "fst (Get L h c sessionID request options) =
     (case QueryValues L request of
        Inl err \<Rightarrow> h
      | Inr q \<Rightarrow>
          fst (MergeHeaders (fst (ToHeader (fst (Header_Clone h (header c))) options))
                 (snd (Header_Clone h (header c)))
                 (snd (ToHeader (fst (Header_Clone h (header c))) options))))"
  by (simp add: Get_def Let_def split: sum.splits prod.splits)


lemma Call_attempts:
  "0 < attempt_count cr params \<Longrightarrow> fst (Call L cr h params) \<le> attempt_count cr params"
  using send_retrying_attempts by (simp add: Call_fst)

lemma Get_snd_cases:
  obtains (failed) err where "snd (Get L h c sessionID request options) = (0, Inl (ErrOther err))"
  | (called) h' params where
      "snd (Get L h c sessionID request options) = Call L (caller c) h' params"
      "cp_MaxAttempts params = MaxAttempts options"
proof (cases "QueryValues L request")
  case (Inl err)
  then have "snd (Get L h c sessionID request options) = (0, Inl (ErrOther err))"
    by (simp add: Get_def Let_def)
  then show ?thesis by (rule failed)
next
  case (Inr q)
  then have "\<exists>h' params. snd (Get L h c sessionID request options) = Call L (caller c) h' params
      \<and> cp_MaxAttempts params = MaxAttempts options"
    by (simp add: Get_def Let_def split: prod.splits) fastforce
  then show ?thesis using called by blast
qed

lemma Get_attempts:
  assumes "0 < get_attempt_count c options"
  shows "fst (snd (Get L h c sessionID request options)) \<le> get_attempt_count c options"
proof (cases L h c sessionID request options rule: Get_snd_cases)
  case (failed err)
  then show ?thesis by simp
next
  case (called h' params)
  then have "attempt_count (caller c) params = get_attempt_count c options"
    by (simp add: attempt_count_def get_attempt_count_def)
  with assms called(1) Call_attempts [of "caller c" params L h'] show ?thesis by simp
qed

text \<open>
  C3. A call through the request executor with a configured (positive) attempt count makes
  at most that many attempts, and every attempt that was followed by another one failed
  at the transport level: once a response arrives, whatever its status code, no further
  attempt is made. The same bound holds for \<open>Get\<close>, whose attempt count is the one of the
  request options when set and the one of the client's Caller otherwise.
\<close>
theorem attempts_bounded:
  "(0 < attempt_count cr params \<longrightarrow> fst (Call L cr h params) \<le> attempt_count cr params) \<and>
   (\<forall>j. Suc j < fst (Call L cr h params) \<longrightarrow>
          isl (call_client L cr params j (call_request_of h params))) \<and>
   (0 < get_attempt_count c options \<longrightarrow>
      fst (snd (Get L h c sessionID request options)) \<le> get_attempt_count c options)"
proof (intro conjI allI impI)
  assume "0 < attempt_count cr params"
  then show "fst (Call L cr h params) \<le> attempt_count cr params"
    using send_retrying_attempts by (simp add: Call_fst)
next
  fix j
  assume "Suc j < fst (Call L cr h params)"
  then show "isl (call_client L cr params j (call_request_of h params))"
    using send_retrying_failures
      [of 0 j "\<lambda>i. call_client L cr params i (call_request_of h params)"]
    by (simp add: Call_fst)
next
  assume "0 < get_attempt_count c options"
  then show "fst (snd (Get L h c sessionID request options)) \<le> get_attempt_count c options"
    by (rule Get_attempts)
qed

text \<open>Merging writes into its first argument: without the clone the stored header would change.\<close>

lemma MergeHeaders_in_place:
  "deref (fst (MergeHeaders h left right)) left = deref h left ++ deref h right"
  by (simp add: MergeHeaders_def deref_def)

lemma example_merge_without_clone:
  "deref (fst (MergeHeaders (fst (ToHeader example_heap example_request_options))
                 (header example_search_client)
                 (snd (ToHeader example_heap example_request_options))))
     (header example_search_client) ''X-Request-Id'' = Some [''1''] \<and>
   deref example_heap (header example_search_client) ''X-Request-Id'' = None"
  by (simp add: MergeHeaders_def ToHeader_def alloc_def deref_def example_heap_def
      example_search_client_def example_request_options_def)

text \<open>
  C6. \<open>Get\<close> leaves the client's stored header as it was: the map that the field
  \<open>header\<close> refers to has the same entries after the call as before, for any options of
  the request, because the per-request headers are merged into a clone. The client itself
  is passed by pointer and \<open>Get\<close> assigns to none of its fields.
\<close>
theorem Get_header_unchanged:
  assumes "header c < next_free h"
  shows "cells (fst (Get L h c sessionID request options)) (header c) = cells h (header c)"
  using assms
  by (simp add: Get_heap Header_Clone_def ToHeader_def MergeHeaders_def alloc_def
      split: sum.splits)

lemma NewClient_header_allocated:
  "header (snd (NewClient h options)) < next_free (fst (NewClient h options))"
  by (simp add: NewClient_def ToHeader_def alloc_def)

text \<open>
  C7. For an error response with status 404 or 500 whose body, once read, does not decode
  into the corresponding typed error, the error decoder returns the generic API error
  made of the status code and the raw body.
\<close>
theorem errorDecoder_undecodable_body:
  assumes "statusCode = 404 \<and>
             Decode_NotFoundError L raw
               (new_typed_error\<lparr>te_APIError := Some (NewAPIError 404 raw)\<rparr>) = None
           \<or> statusCode = 500 \<and>
             Decode_InternalServerError L raw
               (new_typed_error\<lparr>te_APIError := Some (NewAPIError 500 raw)\<rparr>) = None"
  shows "errorDecoder L statusCode (Inr raw) =
           ErrAPI \<lparr>APIError_StatusCode = statusCode, APIError_err = raw\<rparr>"
  using assms by (auto simp: errorDecoder_def NewAPIError_def Let_def)

text \<open>
  C1, as amended. For a response received by \<open>HandleRequest\<close>, the result is determined
  by the status code: 200 gives the response and no error, 404 a not-found error, 401 an
  authentication error, and every other status, 500 included, the generic API error.
  The error decoder of the generated \<open>Get\<close> gives a not-found error for 404 and an
  internal-server error for 500 when the body decodes into that type, and for every other
  status, 401 included, the generic API error made of the status code and the raw body.
\<close>
theorem status_dispatch:
  assumes "Do (Client z) req = Inr resp"
  shows "(StatusCode resp = 200 \<longrightarrow> HandleRequest z req msg = (Some resp, None)) \<and>
         (StatusCode resp = 404 \<longrightarrow>
            HandleRequest z req msg = (None, Some (NotFoundError msg))) \<and>
         (StatusCode resp = 401 \<longrightarrow>
            HandleRequest z req msg =
              (None, Some (AuthenticationError ''Authentication failed.''))) \<and>
         (StatusCode resp \<notin> {200, 404, 401} \<longrightarrow>
            HandleRequest z req msg =
              (None, Some (APIError (''Got an unexpected status code: ''
                                       @ show_int (StatusCode resp))))) \<and>
         (Decode_NotFoundError L raw
            (new_typed_error\<lparr>te_APIError := Some (NewAPIError 404 raw)\<rparr>) = Some v \<longrightarrow>
            errorDecoder L 404 (Inr raw) = ErrNotFound v) \<and>
         (Decode_InternalServerError L raw
            (new_typed_error\<lparr>te_APIError := Some (NewAPIError 500 raw)\<rparr>) = Some v' \<longrightarrow>
            errorDecoder L 500 (Inr raw) = ErrInternalServer v') \<and>
         (statusCode \<notin> {404, 500} \<longrightarrow>
            errorDecoder L statusCode (Inr raw) = ErrAPI (NewAPIError statusCode raw))"
  using assms by (simp add: HandleRequest_def errorDecoder_def Let_def)

text \<open>
  C2. For a response to the health check: when its status code is 200 and the version in
  the header X-Zep-Version is below the minimum supported version, \<open>CheckServer\<close> prints
  the warning and returns nil; when its status code is not 200, \<open>CheckServer\<close> returns an
  error.
\<close>
theorem CheckServer_version_and_status:
  assumes "http_NewRequest w ''GET'' (ServerURL z @ ''/healthz'') = Inr req0"
    and "Do (Client z) (fold (\<lambda>(key, val). Header_Add key val) (Headers z) req0) = Inr resp"
  shows "(StatusCode resp = 200 \<and> below_minimum (Header_Get (Header resp) ''X-Zep-Version'')
            \<longrightarrow> CheckServer w z = ([''Warning: '' @ MinServerWarningMsg], None)) \<and>
         (StatusCode resp \<noteq> 200 \<longrightarrow> snd (CheckServer w z) \<noteq> None)"
proof (intro conjI impI)
  assume "StatusCode resp = 200 \<and> below_minimum (Header_Get (Header resp) ''X-Zep-Version'')"
  then show "CheckServer w z = ([''Warning: '' @ MinServerWarningMsg], None)"
    by (simp add: CheckServer_response [OF assms] below_minimum_result)
next
  assume "StatusCode resp \<noteq> 200"
  then show "snd (CheckServer w z) \<noteq> None"
    by (simp add: CheckServer_response [OF assms] split: prod.splits option.splits)
qed

text \<open>
  C4. \<open>isVersionGreaterOrEqual\<close> returns \<open>(true, nil)\<close> exactly for the valid semantic
  versions that are greater than or equal to the minimum supported version 0.16.0, and it
  returns an error exactly for the strings that are not valid semantic versions.
\<close>
theorem isVersionGreaterOrEqual_semver:
  "(isVersionGreaterOrEqual v = (True, None)) = (valid_semver v \<and> at_least_minimum v) \<and>
   (snd (isVersionGreaterOrEqual v) \<noteq> None) = (\<not> valid_semver v)"
proof (cases "NewVersion v")
  case (Inl err)
  with NewVersion_valid [of v] show ?thesis
    by (simp add: isVersionGreaterOrEqual_eq at_least_minimum_def)
next
  case (Inr ver)
  with NewVersion_valid [of v] show ?thesis
    by (simp add: isVersionGreaterOrEqual_eq at_least_minimum_def NewVersion_min)
qed

text \<open>
  C5, as amended. The client returned by \<open>NewZepClient\<close> stores the given server URL with
  one trailing slash removed when there is one. The stored URL therefore does not end
  with a slash whenever the given URL does not end with two slashes, and no operation of
  the client changes it.
\<close>
theorem NewZepClient_ServerURL:
  assumes "snd (NewZepClient w serverURL apiKey client) = Some c"
  shows "ServerURL c = TrimSuffix serverURL ''/'' \<and>
         (\<not> HasSuffix serverURL ''//'' \<longrightarrow> \<not> HasSuffix (ServerURL c) ''/'') \<and>
         ServerURL (exec_ops w' c ops) = ServerURL c"
  using assms by (auto simp: NewZepClient_snd exec_ops_receiver dest: TrimSuffix_no_slash)

text \<open>
  C8. \<open>NewZepClient\<close> always returns a client, with the trimmed URL, the headers and the
  HTTP client it was built from, whatever the health check answers; an error of
  \<open>CheckServer\<close> is printed after the lines \<open>CheckServer\<close> printed itself, and changes
  nothing else.
\<close>
theorem NewZepClient_returns_client:
  "(let c = \<lparr>ServerURL = TrimSuffix serverURL ''/'',
              Headers = (if apiKey \<noteq> [] then [(''Authorization'', ''Bearer '' @ apiKey)] else []),
              Client = (case client of
                          None \<Rightarrow> \<lparr>Timeout = DefaultRequestTimeout, Do = DefaultTransport w\<rparr>
                        | Some cl \<Rightarrow> cl)\<rparr>
    in snd (NewZepClient w serverURL apiKey client) = Some c \<and>
       fst (NewZepClient w serverURL apiKey client) =
         fst (CheckServer w c) @
           (case snd (CheckServer w c) of None \<Rightarrow> [] | Some err \<Rightarrow> [Error err]))"
  by (simp add: NewZepClient_def Let_def split: prod.splits option.splits)


lemma example_send_retrying:
  "send_retrying (\<lambda>i. flaky_client 5 500 i r) 3 0 = (3, Inl ''timeout'')"
  "send_retrying (\<lambda>i. flaky_client 1 500 i r) 3 0 = (2, Inr (example_response 500 ''0.17.0''))"
  by (simp_all add: send_retrying.simps flaky_client_def)

text \<open>
  Three attempts are configured and the transport fails five times in a row: three
  attempts are made. With one failure before a response with status 500, \<open>Get\<close> stops
  after the second attempt.
\<close>
theorem attempts_bounded_witness:
  "0 < attempt_count (NewCaller (Some (flaky_client 5 500)) 3) example_params \<and>
   fst (Call example_library (NewCaller (Some (flaky_client 5 500)) 3) example_heap example_params) = 3 \<and>
   isl (flaky_client 5 500 1 (call_request_of example_heap example_params)) \<and>
   0 < get_attempt_count example_search_client example_request_options \<and>
   fst (snd (Get example_library example_heap example_search_client ''s1'' ()
               example_request_options)) \<le> 3"
proof -
  have n: "fst (Call example_library (NewCaller (Some (flaky_client 5 500)) 3) example_heap
                  example_params) = 3"
    by (simp add: Call_fst example_send_retrying call_client_def NewCaller_def example_params_def
        attempt_count_def)
  show ?thesis
    using n attempts_bounded [where cr = "NewCaller (Some (flaky_client 5 500)) 3"
        and params = example_params and L = example_library and h = example_heap
        and c = example_search_client and options = example_request_options
        and sessionID = "''s1''" and request = "()"]
    by (simp add: attempt_count_def get_attempt_count_def NewCaller_def example_params_def
        example_search_client_def example_request_options_def call_client_def)
qed

text \<open>
  A call with a header of its own leaves the stored Authorization header alone; the merged
  headers are in the clone.
\<close>
theorem Get_header_unchanged_witness:
  "header example_search_client < next_free example_heap \<and>
   cells (fst (Get example_library example_heap example_search_client ''s1'' ()
                 example_request_options)) (header example_search_client) =
     Some [''Authorization'' \<mapsto> [''Api-Key k'']] \<and>
   deref (fst (Get example_library example_heap example_search_client ''s1'' ()
                 example_request_options)) 1 ''X-Request-Id'' = Some [''1''] \<and>
   deref (fst (Get example_library example_heap example_search_client ''s1'' ()
                 example_request_options)) 1 ''Authorization'' = Some [''Api-Key k'']"
proof -
  have h: "header example_search_client < next_free example_heap"
    by (simp add: example_search_client_def example_heap_def)
  let ?h' = "fst (Get example_library example_heap example_search_client ''s1'' ()
                 example_request_options)"
  have m: "deref ?h' 1 ''X-Request-Id'' = Some [''1'']"
    "deref ?h' 1 ''Authorization'' = Some [''Api-Key k'']"
    by (simp_all add: Get_heap example_library_def Header_Clone_def ToHeader_def
        MergeHeaders_def alloc_def deref_def example_heap_def example_search_client_def
        example_request_options_def)
  show ?thesis
    using h m Get_header_unchanged [OF h, where L = example_library and sessionID = "''s1''"
        and request = "()" and options = example_request_options]
    by (simp add: example_search_client_def example_heap_def)
qed

text \<open>A 404 response with an HTML body.\<close>
theorem errorDecoder_undecodable_body_witness:
  "Decode_NotFoundError example_library ''<html>''
     (new_typed_error\<lparr>te_APIError := Some (NewAPIError 404 ''<html>'')\<rparr>) = None \<and>
   errorDecoder example_library 404 (Inr ''<html>'') =
     ErrAPI \<lparr>APIError_StatusCode = 404, APIError_err = ''<html>''\<rparr>"
proof -
  have h: "Decode_NotFoundError example_library ''<html>''
     (new_typed_error\<lparr>te_APIError := Some (NewAPIError 404 ''<html>'')\<rparr>) = None"
    by (simp add: example_library_def)
  show ?thesis
    using h errorDecoder_undecodable_body [where statusCode = 404 and L = example_library
        and raw = "''<html>''"]
    by simp
qed

text \<open>A 500 response given to \<open>HandleRequest\<close>; 404 and 401 given to the error decoder.\<close>
theorem status_dispatch_witness:
  "Do (Client (example_zep_client 500 ''0.17.0'')) example_request =
     Inr (example_response 500 ''0.17.0'') \<and>
   HandleRequest (example_zep_client 500 ''0.17.0'') example_request ''no such session'' =
     (None, Some (APIError ''Got an unexpected status code: 500'')) \<and>
   errorDecoder example_library 404 (Inr ''{}'') =
     ErrNotFound \<lparr>te_APIError = Some \<lparr>APIError_StatusCode = 404, APIError_err = ''{}''\<rparr>,
                  te_decoded = Some ''{}''\<rparr> \<and>
   errorDecoder example_library 401 (Inr ''{}'') =
     ErrAPI \<lparr>APIError_StatusCode = 401, APIError_err = ''{}''\<rparr>"
proof -
  have h: "Do (Client (example_zep_client 500 ''0.17.0'')) example_request =
     Inr (example_response 500 ''0.17.0'')"
    by (simp add: example_zep_client_def)
  show ?thesis
    using h status_dispatch [OF h, where msg = "''no such session''" and L = example_library
        and raw = "''{}''" and statusCode = 401
        and v = "\<lparr>te_APIError = Some \<lparr>APIError_StatusCode = 404, APIError_err = ''{}''\<rparr>,
                 te_decoded = Some ''{}''\<rparr>"]
    by (simp add: example_response_def example_library_def new_typed_error_def NewAPIError_def
        show_int_def digit_char_def)
qed

text \<open>
  \<open>HandleRequest\<close> answers a 500 response with the generic API error, not with an
  internal-server error; the error decoder answers 401 with the generic API error, not
  with an authentication error; and for one status, 404, its result changes with the body.
\<close>
theorem status_500_401_counterexample:
  "HandleRequest (example_zep_client 500 ''0.17.0'') example_request ''no such session'' =
     (None, Some (APIError ''Got an unexpected status code: 500'')) \<and>
   errorDecoder example_library 401 (Inr ''{}'') =
     ErrAPI \<lparr>APIError_StatusCode = 401, APIError_err = ''{}''\<rparr> \<and>
   errorDecoder example_library 404 (Inr ''{}'') \<noteq> errorDecoder example_library 404 (Inr ''<html>'')"
  by (simp add: HandleRequest_def example_zep_client_def example_response_def errorDecoder_def
      example_library_def new_typed_error_def NewAPIError_def show_int_def digit_char_def)

text \<open>A server of version 0.15.2 answering 200, and a server answering 503.\<close>
theorem CheckServer_version_and_status_witness:
  "below_minimum ''0.15.2'' \<and>
   CheckServer (example_world 200 ''0.15.2'') (example_zep_client 200 ''0.15.2'') =
     ([''Warning: '' @ MinServerWarningMsg], None) \<and>
   snd (CheckServer (example_world 503 ''0.17.0'') (example_zep_client 503 ''0.17.0'')) \<noteq> None"
proof -
  let ?req0 = "\<lparr>Method = ''GET'', URL = ''http://h/healthz'', ReqHeader = []\<rparr>"
  have r: "http_NewRequest (example_world c v) ''GET''
             (ServerURL (example_zep_client c v) @ ''/healthz'') = Inr ?req0" for c v
    by (simp add: http_NewRequest_def example_world_def example_zep_client_def)
  have d: "Do (Client (example_zep_client c v))
             (fold (\<lambda>(key, val). Header_Add key val) (Headers (example_zep_client c v)) ?req0) =
           Inr (example_response c v)" for c v
    by (simp add: example_zep_client_def)
  have b: "below_minimum ''0.15.2''"
    by (simp add: below_minimum_def MinServerVersion_def semver_eval)
  show ?thesis
    using b CheckServer_version_and_status [OF r d, of 200 "''0.15.2''"]
      CheckServer_version_and_status [OF r d, of 503 "''0.17.0''"]
    by (simp add: example_response_def Header_Get_def)
qed

text \<open>The versions 0.17.0 and 0.15.2, and a string that is not a version.\<close>
theorem isVersionGreaterOrEqual_semver_witness:
  "isVersionGreaterOrEqual ''0.17.0'' = (True, None) \<and> valid_semver ''0.15.2'' \<and>
   isVersionGreaterOrEqual ''0.15.2'' \<noteq> (True, None) \<and>
   snd (isVersionGreaterOrEqual ''latest'') \<noteq> None"
  using isVersionGreaterOrEqual_semver [of "''0.17.0''"]
    isVersionGreaterOrEqual_semver [of "''0.15.2''"]
    isVersionGreaterOrEqual_semver [of "''latest''"]
  by (simp add: valid_semver_def valid_numeric_identifier_def at_least_minimum_def
      MinServerVersion_def semver_eval)

text \<open>A server URL with one trailing slash, and three operations on the client.\<close>
theorem NewZepClient_ServerURL_witness:
  "snd (NewZepClient (example_world 200 ''0.17.0'') ''http://h/'' ''k'' None) =
     Some \<lparr>ServerURL = ''http://h'', Headers = [(''Authorization'', ''Bearer k'')],
           Client = \<lparr>Timeout = 30, Do = DefaultTransport (example_world 200 ''0.17.0'')\<rparr>\<rparr> \<and>
   \<not> HasSuffix ''http://h/'' ''//'' \<and> \<not> HasSuffix ''http://h'' ''/'' \<and>
   ServerURL (exec_ops (example_world 503 ''0.17.0'')
                \<lparr>ServerURL = ''http://h'', Headers = [(''Authorization'', ''Bearer k'')],
                 Client = \<lparr>Timeout = 30, Do = DefaultTransport (example_world 200 ''0.17.0'')\<rparr>\<rparr>
                [OpCheckServer, OpGetFullURL ''sessions'', OpHandleRequest example_request ''x''])
     = ''http://h''"
proof -
  have h: "snd (NewZepClient (example_world 200 ''0.17.0'') ''http://h/'' ''k'' None) =
     Some \<lparr>ServerURL = ''http://h'', Headers = [(''Authorization'', ''Bearer k'')],
           Client = \<lparr>Timeout = 30, Do = DefaultTransport (example_world 200 ''0.17.0'')\<rparr>\<rparr>"
    by (simp add: NewZepClient_snd TrimSuffix_def HasSuffix_def DefaultRequestTimeout_def)
  show ?thesis
    using h NewZepClient_ServerURL [OF h, where w' = "example_world 503 ''0.17.0''"
        and ops = "[OpCheckServer, OpGetFullURL ''sessions'',
                    OpHandleRequest example_request ''x'']"]
    by (simp add: HasSuffix_def TrimSuffix_def)
qed

text \<open>A server URL with two trailing slashes keeps one of them.\<close>
theorem NewZepClient_trailing_slash_counterexample:
  "snd (NewZepClient (example_world 200 ''0.17.0'') ''http://h//'' ''k'' None) =
     Some \<lparr>ServerURL = ''http://h/'', Headers = [(''Authorization'', ''Bearer k'')],
           Client = \<lparr>Timeout = 30, Do = DefaultTransport (example_world 200 ''0.17.0'')\<rparr>\<rparr> \<and>
   HasSuffix ''http://h/'' ''/''"
  by (simp add: NewZepClient_snd TrimSuffix_def HasSuffix_def DefaultRequestTimeout_def)

text \<open>The health check fails with status 503: the error is printed, the client returned.\<close>
theorem NewZepClient_returns_client_witness:
  "snd (NewZepClient (example_world 503 ''0.17.0'') ''http://h/'' ''k'' None) =
     Some \<lparr>ServerURL = ''http://h'', Headers = [(''Authorization'', ''Bearer k'')],
           Client = \<lparr>Timeout = 30, Do = DefaultTransport (example_world 503 ''0.17.0'')\<rparr>\<rparr> \<and>
   fst (NewZepClient (example_world 503 ''0.17.0'') ''http://h/'' ''k'' None) =
     [ServerErrorMessage]"
proof -
  have c: "CheckServer (example_world 503 ''0.17.0'')
             \<lparr>ServerURL = ''http://h'', Headers = [(''Authorization'', ''Bearer k'')],
              Client = \<lparr>Timeout = 30, Do = DefaultTransport (example_world 503 ''0.17.0'')\<rparr>\<rparr> =
           ([], Some (ZepError ServerErrorMessage))"
    by (simp add: CheckServer_def example_world_def example_response_def http_NewRequest_def
        Header_Get_def example_versions)
  show ?thesis
    using c NewZepClient_returns_client [where w = "example_world 503 ''0.17.0''"
        and serverURL = "''http://h/''" and apiKey = "''k''" and client = None]
    by (simp add: TrimSuffix_def HasSuffix_def DefaultRequestTimeout_def Let_def)
qed

end
